theory Spec2Isabelle
  imports Complex_Main "HOL-Library.Word"
begin

section \<open>Data model (internal/store/store.go)\<close>

text \<open>
  Wall-clock readings (\<open>time.Now()\<close>, SQL \<open>CURRENT_TIMESTAMP\<close>) are inputs of the
  environment: every operation that reads the clock takes the reading as a parameter \<open>now\<close>.
  Errors returned by collaborators outside the program (the n8n webhook) are opaque texts.
\<close>

type_synonym time = nat
type_synonym go_error = string

text \<open>\<open>time.Duration\<close> is a signed 64-bit count of nanoseconds.\<close>

type_synonym duration = "64 word"

record JobOptions =
  StartSeconds :: "int option"
  DurationSeconds :: "int option"
  FadeIn :: bool
  FadeOut :: bool
  Format :: string

text \<open>
  The payload handed to n8n is the Go map with the four keys \<open>job_id\<close>, \<open>source_url\<close>,
  \<open>options\<close> and \<open>callback_url\<close>. The job row keeps its JSON text; the text is
  represented here by the value it encodes.
\<close>

record n8n_payload =
  p_job_id :: string
  p_source_url :: string
  p_options :: JobOptions
  p_callback_url :: string

record Job =
  ID :: string
  SourceURL :: string
  UserID :: "string option"
  Status :: string
  CreatedAt :: time
  UpdatedAt :: time
  Attempts :: int
  N8NPayload :: "n8n_payload option"
  ErrorMessage :: "string option"

record Ringtone =
  RID :: int
  JobID :: string
  FileName :: string
  FilePath :: string
  RFormat :: string
  RDurationSeconds :: "int option"
  RCreatedAt :: time

definition StatusQueued :: string where "StatusQueued = ''queued''"
definition StatusProcessing :: string where "StatusProcessing = ''processing''"
definition StatusCompleted :: string where "StatusCompleted = ''completed''"
definition StatusFailed :: string where "StatusFailed = ''failed''"

section \<open>The store (internal/store/store.go)\<close>

text \<open>
  The database holds two tables. \<open>jobs\<close> has the primary key \<open>id\<close>, so it is a map from
  identifiers to rows. \<open>ringtones\<close> has an autoincremented key and no uniqueness constraint
  on \<open>job_id\<close>, so it is the list of its rows in insertion order; its \<open>job_id\<close> is a
  foreign key into \<open>jobs\<close>, and the connection string asks for foreign keys to be
  enforced (the manager inserts a Result record only after it has seen the job, so no
  property below rests on the enforcement). Rows are never deleted. The statements fail
  here only where a constraint of the schema is violated; faults of the storage medium
  are outside the model. The parameter \<open>id\<close> of the Go methods is written \<open>jid\<close>. The
  counters and keys are Go \<open>int\<close>s that stay far from the 64-bit range and are
  integers here.
\<close>

record store =
  jobs :: "string \<rightharpoonup> Job"
  ringtones :: "Ringtone list"

datatype store_error = PrimaryKeyViolation | ForeignKeyViolation

text \<open>
  Every method of the store takes the database and returns its result together with the
  database it leaves behind, reads included.
\<close>

definition store_CreateJob :: "Job \<Rightarrow> store \<Rightarrow> (store_error + unit) \<times> store" where
  "store_CreateJob job db =
     (if ID job \<in> dom (jobs db) then (Inl PrimaryKeyViolation, db)
      else (Inr (), db\<lparr>jobs := (jobs db)(ID job \<mapsto> job\<lparr>ErrorMessage := None\<rparr>)\<rparr>))"

definition store_GetJob :: "string \<Rightarrow> store \<Rightarrow> (store_error + Job option) \<times> store" where
  "store_GetJob jid db = (Inr (jobs db jid), db)"

definition store_UpdateJobStatus ::
  "string \<Rightarrow> string \<Rightarrow> string option \<Rightarrow> time \<Rightarrow> store \<Rightarrow> (store_error + unit) \<times> store" where
  "store_UpdateJobStatus jid status errorMessage now db =
     (case jobs db jid of
        None \<Rightarrow> (Inr (), db)
      | Some job \<Rightarrow>
          (Inr (), db\<lparr>jobs := (jobs db)(jid \<mapsto>
             job\<lparr>Status := status, UpdatedAt := now, ErrorMessage := errorMessage\<rparr>)\<rparr>))"

definition store_IncrementJobAttempts ::
  "string \<Rightarrow> time \<Rightarrow> store \<Rightarrow> (store_error + unit) \<times> store" where
  "store_IncrementJobAttempts jid now db =
     (case jobs db jid of
        None \<Rightarrow> (Inr (), db)
      | Some job \<Rightarrow>
          (Inr (), db\<lparr>jobs := (jobs db)(jid \<mapsto>
             job\<lparr>Attempts := Attempts job + 1, UpdatedAt := now\<rparr>)\<rparr>))"

text \<open>
  \<open>CreateRingtone\<close> inserts the row and writes the generated key back into the argument;
  the key is the number of rows inserted so far plus one.
\<close>

definition store_CreateRingtone :: "Ringtone \<Rightarrow> store \<Rightarrow> (store_error + Ringtone) \<times> store" where
  "store_CreateRingtone ringtone db =
     (if JobID ringtone \<notin> dom (jobs db) then (Inl ForeignKeyViolation, db)
      else (let row = ringtone\<lparr>RID := int (length (ringtones db)) + 1\<rparr>
            in (Inr row, db\<lparr>ringtones := ringtones db @ [row]\<rparr>)))"

text \<open>\<open>QueryRow\<close> scans the first row the query returns, the oldest one of the job.\<close>

definition store_GetRingtoneByJobID ::
  "string \<Rightarrow> store \<Rightarrow> (store_error + Ringtone option) \<times> store" where
  "store_GetRingtoneByJobID jobID db =
     (Inr (find (\<lambda>r. JobID r = jobID) (ringtones db)), db)"

section \<open>The job manager (internal/jobs/jobs.go)\<close>

text \<open>
  Field names of different Go structs that coincide are told apart by a prefix: \<open>req_\<close> for
  \<open>CreateJobRequest\<close>, \<open>resp_\<close> for \<open>CreateJobResponse\<close>, \<open>js_\<close> for
  \<open>JobStatusResponse\<close>, \<open>cb_\<close> for \<open>CallbackRequest\<close> and \<open>R\<close> for the columns of
  \<open>Ringtone\<close> that \<open>Job\<close> or \<open>JobOptions\<close> also have. Methods of the store carry the
  prefix \<open>store_\<close>.
\<close>

record CreateJobRequest =
  req_SourceURL :: string
  req_UserID :: "string option"
  req_Options :: "JobOptions option"

record CreateJobResponse =
  resp_JobID :: string
  resp_Status :: string
  resp_PollURL :: string

record JobStatusResponse =
  js_JobID :: string
  js_Status :: string
  js_CreatedAt :: time
  js_UpdatedAt :: time
  js_DownloadURL :: "string option"
  js_Error :: "string option"

text \<open>
  A decoded JSON value, as \<open>encoding/json\<close> stores it in an \<open>interface{}\<close>: a number is a
  \<open>float64\<close>, represented by the rational it denotes.
\<close>

datatype json =
  JNull | JBool bool | JNumber rat | JString string | JArray "json list"
  | JObject "(string \<times> json) list"

record CallbackRequest =
  cb_JobID :: string
  cb_Status :: string
  cb_FilePath :: "string option"
  cb_Metadata :: "(string \<rightharpoonup> json) option"

text \<open>The errors the manager returns, one constructor for each \<open>fmt.Errorf\<close>.\<close>

datatype error =
  FailedToCreateJobInDatabase store_error
  | FailedToGetJob store_error
  | JobNotFound
  | UnknownCallbackStatus string
  | FilePathRequired
  | FailedToCreateRingtoneRecord store_error
  | FailedToUpdateJobStatus store_error

subsection \<open>The dispatch loop\<close>

text \<open>
  \<open>triggerN8NWorkflow\<close> runs in a goroutine of its own. Its control flow depends on the
  results of \<open>TriggerWebhook\<close> only: an error of the store is logged and otherwise
  ignored. The loop is therefore the sequence of calls it makes, in program order, given
  the outcome of the webhook call of each attempt (\<open>None\<close> for success).
\<close>

datatype effect =
  IncrementJobAttempts string
  | TriggerWebhook n8n_payload
  | Sleep duration
  | UpdateJobStatus string string "string option"

definition maxAttempts :: nat where "maxAttempts = 3"

definition baseDelay :: duration where "baseDelay = 1000000000"

text \<open>\<open>baseDelay * time.Duration(1<<(attempt-1))\<close>, in 64-bit arithmetic.\<close>

definition backoff :: "nat \<Rightarrow> duration" where
  "backoff attempt = baseDelay * push_bit (attempt - 1) 1"

text \<open>The verb \<open>%d\<close> of \<open>fmt.Sprintf\<close> on a number that is not negative.\<close>

fun fmt_d :: "nat \<Rightarrow> string" where
  "fmt_d n =
     (if n < 10 then [char_of (48 + n)]
      else fmt_d (n div 10) @ [char_of (48 + n mod 10)])"

function triggerN8NWorkflow_from ::
  "string \<Rightarrow> n8n_payload \<Rightarrow> (nat \<Rightarrow> go_error option) \<Rightarrow> nat \<Rightarrow> effect list" where
  "triggerN8NWorkflow_from jobID payload webhook attempt =
     (if attempt \<le> maxAttempts then
        IncrementJobAttempts jobID # TriggerWebhook payload #
        (case webhook attempt of
           Some err \<Rightarrow>
             (if attempt = maxAttempts then
                [UpdateJobStatus jobID StatusFailed
                   (Some (''Failed to trigger n8n after '' @ fmt_d maxAttempts
                          @ '' attempts: '' @ err))]
              else Sleep (backoff attempt)
                   # triggerN8NWorkflow_from jobID payload webhook (attempt + 1))
         | None \<Rightarrow> [UpdateJobStatus jobID StatusProcessing None])
      else [])"
  by pat_completeness auto
termination
  by (relation "measure (\<lambda>(jobID, payload, webhook, attempt). maxAttempts + 1 - attempt)") auto

declare triggerN8NWorkflow_from.simps [simp del]

definition triggerN8NWorkflow ::
  "string \<Rightarrow> n8n_payload \<Rightarrow> (nat \<Rightarrow> go_error option) \<Rightarrow> effect list" where
  "triggerN8NWorkflow jobID payload webhook = triggerN8NWorkflow_from jobID payload webhook 1"

text \<open>What one call of the loop does to the database; the error of the store is dropped.\<close>

fun perform :: "effect \<Rightarrow> time \<Rightarrow> store \<Rightarrow> store" where
  "perform (IncrementJobAttempts jobID) now db = snd (store_IncrementJobAttempts jobID now db)"
| "perform (TriggerWebhook payload) now db = db"
| "perform (Sleep d) now db = db"
| "perform (UpdateJobStatus jobID status errorMessage) now db =
     snd (store_UpdateJobStatus jobID status errorMessage now db)"

text \<open>Whether a call of the loop is a dispatch attempt.\<close>

definition is_TriggerWebhook :: "effect \<Rightarrow> bool" where
  "is_TriggerWebhook e = (case e of TriggerWebhook payload \<Rightarrow> True | _ \<Rightarrow> False)"

subsection \<open>Submission\<close>

text \<open>
  The running program is the database and the dispatch goroutines started so far, each
  with the calls it has yet to make. \<open>CreateJob\<close> draws the identifier from
  \<open>uuid.New()\<close> and reads the clock twice; the draw, the two readings and the outcomes the
  webhook will give to the goroutine it starts are parameters. \<open>json.Marshal\<close> cannot fail
  on this payload, so its error branch has no counterpart.
\<close>

record world =
  database :: store
  goroutines :: "effect list list"

definition CreateJob ::
  "CreateJobRequest \<Rightarrow> string \<Rightarrow> time \<Rightarrow> time \<Rightarrow> (nat \<Rightarrow> go_error option) \<Rightarrow> world
   \<Rightarrow> (error + CreateJobResponse) \<times> world" where
  "CreateJob req jobID now1 now2 webhook w =
     (let options =
            (case req_Options req of
               None \<Rightarrow> \<lparr>StartSeconds = None, DurationSeconds = None, FadeIn = False,
                          FadeOut = False, Format = ''mp3''\<rparr>
             | Some given \<Rightarrow> given);
          options = (if Format options = '''' then options\<lparr>Format := ''mp3''\<rparr> else options);
          n8nPayload = \<lparr>p_job_id = jobID, p_source_url = req_SourceURL req,
                        p_options = options,
                        p_callback_url = ''http://backend:8080/api/v1/n8n-callback''\<rparr>;
          job = \<lparr>ID = jobID, SourceURL = req_SourceURL req, UserID = req_UserID req,
                 Status = StatusQueued, CreatedAt = now1, UpdatedAt = now2, Attempts = 0,
                 N8NPayload = Some n8nPayload, ErrorMessage = None\<rparr>
      in case store_CreateJob job (database w) of
           (Inl err, db') \<Rightarrow> (Inl (FailedToCreateJobInDatabase err), w\<lparr>database := db'\<rparr>)
         | (Inr u, db') \<Rightarrow>
             (Inr \<lparr>resp_JobID = jobID, resp_Status = StatusQueued,
                   resp_PollURL = ''/api/v1/job-status/'' @ jobID\<rparr>,
              \<lparr>database = db',
               goroutines = goroutines w @ [triggerN8NWorkflow jobID n8nPayload webhook]\<rparr>))"

subsection \<open>Status projection\<close>

definition GetJobStatus :: "string \<Rightarrow> store \<Rightarrow> (error + JobStatusResponse) \<times> store" where
  "GetJobStatus jobID db =
     (case store_GetJob jobID db of
        (Inl err, db1) \<Rightarrow> (Inl (FailedToGetJob err), db1)
      | (Inr None, db1) \<Rightarrow> (Inl JobNotFound, db1)
      | (Inr (Some job), db1) \<Rightarrow>
          (let response = \<lparr>js_JobID = ID job, js_Status = Status job,
                            js_CreatedAt = CreatedAt job, js_UpdatedAt = UpdatedAt job,
                            js_DownloadURL = None, js_Error = ErrorMessage job\<rparr>
           in if Status job = StatusCompleted then
                (case store_GetRingtoneByJobID jobID db1 of
                   (Inl err, db2) \<Rightarrow> (Inr response, db2)
                 | (Inr None, db2) \<Rightarrow> (Inr response, db2)
                 | (Inr (Some ringtone), db2) \<Rightarrow>
                     (Inr (response\<lparr>js_DownloadURL :=
                             Some (''/download/'' @ FileName ringtone)\<rparr>), db2))
              else (Inr response, db1)))"

subsection \<open>Callback reconciliation\<close>

text \<open>
  A \<open>completed\<close> report reads the clock twice, \<open>time.Now()\<close> for the Result record
  (\<open>now1\<close>) and \<open>CURRENT_TIMESTAMP\<close> in the status write (\<open>now2\<close>); a \<open>failed\<close> report
  reads it once, in the status write. The logger is left out.

  \<open>int(d)\<close> on a \<open>float64\<close> drops the fraction, towards zero. A value outside the range of
  \<open>int\<close> converts to an implementation-dependent result in Go; that case is not modelled.
\<close>

definition float64_to_int :: "rat \<Rightarrow> int" where
  "float64_to_int d = (if 0 \<le> d then \<lfloor>d\<rfloor> else \<lceil>d\<rceil>)"

definition handleCompletedCallback ::
  "CallbackRequest \<Rightarrow> time \<Rightarrow> time \<Rightarrow> store \<Rightarrow> error option \<times> store" where
  "handleCompletedCallback req now1 now2 db =
     (case cb_FilePath req of
        None \<Rightarrow> (Some FilePathRequired, db)
      | Some filePath \<Rightarrow>
          (let duration =
                 (case cb_Metadata req of
                    None \<Rightarrow> None
                  | Some metadata \<Rightarrow>
                      (case metadata ''duration'' of
                         Some (JNumber d) \<Rightarrow> Some (float64_to_int d)
                       | _ \<Rightarrow> None));
               ringtone = \<lparr>RID = 0, JobID = cb_JobID req, FileName = filePath,
                           FilePath = filePath, RFormat = ''mp3'',
                           RDurationSeconds = duration, RCreatedAt = now1\<rparr>
           in case store_CreateRingtone ringtone db of
                (Inl err, db1) \<Rightarrow> (Some (FailedToCreateRingtoneRecord err), db1)
              | (Inr row, db1) \<Rightarrow>
                  (case store_UpdateJobStatus (cb_JobID req) StatusCompleted None now2 db1 of
                     (Inl err, db2) \<Rightarrow> (Some (FailedToUpdateJobStatus err), db2)
                   | (Inr u, db2) \<Rightarrow> (None, db2))))"

definition handleFailedCallback ::
  "CallbackRequest \<Rightarrow> time \<Rightarrow> store \<Rightarrow> error option \<times> store" where
  "handleFailedCallback req now db =
     (let errorMessage =
            (case cb_Metadata req of
               None \<Rightarrow> ''Job failed in n8n workflow''
             | Some metadata \<Rightarrow>
                 (case metadata ''error'' of
                    Some (JString msg) \<Rightarrow> msg
                  | _ \<Rightarrow> ''Job failed in n8n workflow''))
      in case store_UpdateJobStatus (cb_JobID req) StatusFailed (Some errorMessage) now db of
           (Inl err, db1) \<Rightarrow> (Some (FailedToUpdateJobStatus err), db1)
         | (Inr u, db1) \<Rightarrow> (None, db1))"

definition HandleCallback ::
  "CallbackRequest \<Rightarrow> time \<Rightarrow> time \<Rightarrow> store \<Rightarrow> error option \<times> store" where
  "HandleCallback req now1 now2 db =
     (case store_GetJob (cb_JobID req) db of
        (Inl err, db1) \<Rightarrow> (Some (FailedToGetJob err), db1)
      | (Inr None, db1) \<Rightarrow> (Some JobNotFound, db1)
      | (Inr (Some job), db1) \<Rightarrow>
          (if cb_Status req = StatusCompleted then handleCompletedCallback req now1 now2 db1
           else if cb_Status req = StatusFailed then handleFailedCallback req now2 db1
           else (Some (UnknownCallbackStatus (cb_Status req)), db1)))"

section \<open>The HTTP handler of submissions (internal/api/handlers.go)\<close>

text \<open>
  \<open>strings.ToLower\<close> on the bytes of the text: an ASCII capital becomes its small letter.
  Bytes of a multi-byte character are left alone; no such character lowers to one of the
  letters of the two prefixes tested below, so the test reads the same.
\<close>

definition to_lower_byte :: "char \<Rightarrow> char" where
  "to_lower_byte c =
     (let n = (of_char c :: nat) in if 65 \<le> n \<and> n \<le> 90 then char_of (n + 32) else c)"

definition ToLower :: "string \<Rightarrow> string" where
  "ToLower s = map to_lower_byte s"

definition HasPrefix :: "string \<Rightarrow> string \<Rightarrow> bool" where
  "HasPrefix s pre = (length pre \<le> length s \<and> take (length pre) s = pre)"

definition isValidURL :: "string \<Rightarrow> bool" where
  "isValidURL url =
     (let url = ToLower url in HasPrefix url ''http://'' \<or> HasPrefix url ''https://'')"

text \<open>
  What the handler writes: the status code and either an \<open>ErrorResponse\<close> (message, code)
  or the encoded \<open>CreateJobResponse\<close>. The body of the request is given as the result of
  decoding it, \<open>None\<close> when the decoder fails.
\<close>

datatype http_body = ErrorResponse string string | JobResponse CreateJobResponse

definition handleCreateRingtone ::
  "CreateJobRequest option \<Rightarrow> string \<Rightarrow> time \<Rightarrow> time \<Rightarrow> (nat \<Rightarrow> go_error option) \<Rightarrow> world
   \<Rightarrow> (nat \<times> http_body) \<times> world" where
  "handleCreateRingtone body jobID now1 now2 webhook w =
     (case body of
        None \<Rightarrow> ((400, ErrorResponse ''Invalid JSON payload'' ''INVALID_JSON''), w)
      | Some req \<Rightarrow>
          if req_SourceURL req = '''' then
            ((400, ErrorResponse ''source_url is required'' ''MISSING_SOURCE_URL''), w)
          else if \<not> isValidURL (req_SourceURL req) then
            ((400, ErrorResponse ''Invalid source URL format'' ''INVALID_URL''), w)
          else
            (case CreateJob req jobID now1 now2 webhook w of
               (Inl err, w') \<Rightarrow>
                 ((500, ErrorResponse ''Failed to create job'' ''JOB_CREATION_ERROR''), w')
             | (Inr response, w') \<Rightarrow> ((202, JobResponse response), w')))"

section \<open>Executions\<close>

text \<open>
  The operations of the running program, each atomic: a submission, a callback, a status
  query, and one call of a dispatch goroutine (the goroutine with the given index makes the
  next call of its loop at the given time). An execution is a list of operations; the
  goroutines keep their program order, and the operations of different goroutines and of
  the handlers interleave freely. \<open>HandleCallback\<close> is taken as one step: the calls it
  makes before its write to \<open>jobs\<close> read whether the job exists, which never changes, and
  insert into \<open>ringtones\<close>, which no other operation reads before deciding a write.
\<close>

datatype op =
  OpCreateJob CreateJobRequest string time time "nat \<Rightarrow> go_error option"
  | OpHandleCallback CallbackRequest time time
  | OpGetJobStatus string
  | OpDispatch nat time

fun step :: "op \<Rightarrow> world \<Rightarrow> world" where
  "step (OpCreateJob req jobID now1 now2 webhook) w = snd (CreateJob req jobID now1 now2 webhook w)"
| "step (OpHandleCallback req now1 now2) w =
     w\<lparr>database := snd (HandleCallback req now1 now2 (database w))\<rparr>"
| "step (OpGetJobStatus jobID) w = w\<lparr>database := snd (GetJobStatus jobID (database w))\<rparr>"
| "step (OpDispatch i now) w =
     (if i < length (goroutines w) then
        (case goroutines w ! i of
           [] \<Rightarrow> w
         | e # rest \<Rightarrow>
             \<lparr>database = perform e now (database w), goroutines = (goroutines w)[i := rest]\<rparr>)
      else w)"

definition run :: "op list \<Rightarrow> world \<Rightarrow> world" where
  "run ops w = fold step ops w"

definition initial_world :: world where
  "initial_world = \<lparr>database = \<lparr>jobs = Map.empty, ringtones = []\<rparr>, goroutines = []\<rparr>"

text \<open>The Result records of a job, and the status of a job (\<open>None\<close> if there is no such job).\<close>

definition results_of :: "string \<Rightarrow> store \<Rightarrow> Ringtone list" where
  "results_of jobID db = filter (\<lambda>r. JobID r = jobID) (ringtones db)"

definition status_of :: "string \<Rightarrow> store \<Rightarrow> string option" where
  "status_of jobID db = map_option Status (jobs db jobID)"

section \<open>Example inputs\<close>

text \<open>
  Concrete requests, reports and executions, used to evaluate the operations. The webhook
  of \<open>always_fails\<close> times out at every attempt, that of \<open>always_succeeds\<close> accepts the
  first, and that of \<open>second_succeeds\<close> times out once and then accepts.
\<close>

definition example_request :: CreateJobRequest where
  "example_request =
     \<lparr>req_SourceURL = ''https://example.com/v1'', req_UserID = None, req_Options = None\<rparr>"

definition example_request_wav :: CreateJobRequest where
  "example_request_wav =
     \<lparr>req_SourceURL = ''https://example.com/v1'', req_UserID = None,
      req_Options = Some \<lparr>StartSeconds = None, DurationSeconds = Some 20, FadeIn = False,
                           FadeOut = True, Format = ''wav''\<rparr>\<rparr>"

text \<open>The payload \<open>CreateJob\<close> builds for \<open>example_request\<close> under the identifier \<open>job1\<close>.\<close>

definition example_payload :: n8n_payload where
  "example_payload =
     \<lparr>p_job_id = ''job1'', p_source_url = ''https://example.com/v1'',
      p_options = \<lparr>StartSeconds = None, DurationSeconds = None, FadeIn = False,
                    FadeOut = False, Format = ''mp3''\<rparr>,
      p_callback_url = ''http://backend:8080/api/v1/n8n-callback''\<rparr>"

definition always_fails :: "nat \<Rightarrow> go_error option" where
  "always_fails = (\<lambda>attempt. Some ''timeout'')"

definition always_succeeds :: "nat \<Rightarrow> go_error option" where
  "always_succeeds = (\<lambda>attempt. None)"

definition second_succeeds :: "nat \<Rightarrow> go_error option" where
  "second_succeeds = (\<lambda>attempt. if attempt = 1 then Some ''timeout'' else None)"

definition example_report :: CallbackRequest where
  "example_report =
     \<lparr>cb_JobID = ''job1'', cb_Status = ''completed'', cb_FilePath = Some ''job1.mp3'',
      cb_Metadata = Some [''duration'' \<mapsto> JNumber 30]\<rparr>"

definition example_report_wav :: CallbackRequest where
  "example_report_wav =
     \<lparr>cb_JobID = ''job1'', cb_Status = ''completed'', cb_FilePath = Some ''job1.wav'',
      cb_Metadata = None\<rparr>"

definition example_report_failed :: CallbackRequest where
  "example_report_failed =
     \<lparr>cb_JobID = ''job1'', cb_Status = ''failed'', cb_FilePath = None,
      cb_Metadata = Some [''error'' \<mapsto> JString ''download failed'']\<rparr>"

definition example_report_no_file :: CallbackRequest where
  "example_report_no_file =
     \<lparr>cb_JobID = ''job1'', cb_Status = ''completed'', cb_FilePath = None,
      cb_Metadata = Some [''duration'' \<mapsto> JNumber 30]\<rparr>"

text \<open>
  A job is submitted, and its goroutine increments the counter, has its first webhook call
  accepted and writes \<open>processing\<close>.
\<close>

definition dispatched :: "op list" where
  "dispatched =
     [OpCreateJob example_request ''job1'' 1 1 always_succeeds,
      OpDispatch 0 2, OpDispatch 0 3, OpDispatch 0 4]"

definition dispatched_wav :: "op list" where
  "dispatched_wav =
     [OpCreateJob example_request_wav ''job1'' 1 1 always_succeeds,
      OpDispatch 0 2, OpDispatch 0 3, OpDispatch 0 4]"

text \<open>The job is dispatched as above and the worker reports completion once.\<close>

definition reconciled :: "op list" where
  "reconciled = dispatched @ [OpHandleCallback example_report 5 5]"

text \<open>
  The first webhook call times out although the worker has taken the job; the worker
  reports completion while the goroutine sleeps before its second attempt.
\<close>

definition completed_during_backoff :: "op list" where
  "completed_during_backoff =
     [OpCreateJob example_request ''job1'' 1 1 second_succeeds,
      OpDispatch 0 2, OpDispatch 0 3, OpDispatch 0 4,
      OpHandleCallback example_report 5 5]"

text \<open>The goroutine then wakes up, makes its second attempt, which is accepted, and writes.\<close>

definition second_attempt :: "op list" where
  "second_attempt = [OpDispatch 0 6, OpDispatch 0 7, OpDispatch 0 8]"

section \<open>Invariants of executions\<close>

text \<open>
  The status writes a dispatch goroutine can make are those of \<open>processing\<close> and of
  \<open>failed\<close>.
\<close>

definition loop_effect :: "effect \<Rightarrow> bool" where
  "loop_effect e =
     (case e of
        UpdateJobStatus jobID status errorMessage \<Rightarrow>
          status = StatusProcessing \<or> status = StatusFailed
      | _ \<Rightarrow> True)"

definition loops_only :: "world \<Rightarrow> bool" where
  "loops_only w = (\<forall>g \<in> set (goroutines w). \<forall>e \<in> set g. loop_effect e)"

text \<open>
  Every Result record belongs to a job, a job in \<open>completed\<close> has a Result record, and a
  job in \<open>queued\<close> has none.
\<close>

definition consistent :: "store \<Rightarrow> bool" where
  "consistent db =
     ((\<forall>r \<in> set (ringtones db). JobID r \<in> dom (jobs db)) \<and>
      (\<forall>jobID job. jobs db jobID = Some job \<longrightarrow>
         (Status job = StatusCompleted \<longrightarrow> results_of jobID db \<noteq> []) \<and>
         (Status job = StatusQueued \<longrightarrow> results_of jobID db = [])))"

section \<open>Properties\<close>

lemmas store_defs = store_CreateJob_def store_GetJob_def store_UpdateJobStatus_def
  store_IncrementJobAttempts_def store_CreateRingtone_def store_GetRingtoneByJobID_def

lemmas status_defs = StatusQueued_def StatusProcessing_def StatusCompleted_def StatusFailed_def

lemmas run_defs = run_def initial_world_def CreateJob_def HandleCallback_def
  handleCompletedCallback_def handleFailedCallback_def GetJobStatus_def store_defs Let_def

subsection \<open>The calls of the dispatch loop\<close>

lemma loop_attempt_fails:
  "attempt < maxAttempts \<Longrightarrow> webhook attempt = Some err \<Longrightarrow>
   triggerN8NWorkflow_from jobID payload webhook attempt =
     IncrementJobAttempts jobID # TriggerWebhook payload # Sleep (backoff attempt) #
     triggerN8NWorkflow_from jobID payload webhook (Suc attempt)"
  by (subst triggerN8NWorkflow_from.simps) simp

lemma loop_last_attempt_fails:
  "webhook maxAttempts = Some err \<Longrightarrow>
   triggerN8NWorkflow_from jobID payload webhook maxAttempts =
     [IncrementJobAttempts jobID, TriggerWebhook payload,
      UpdateJobStatus jobID StatusFailed
        (Some (''Failed to trigger n8n after 3 attempts: '' @ err))]"
  by (subst triggerN8NWorkflow_from.simps) (simp add: maxAttempts_def char_of_def bit_0)

lemma loop_attempt_succeeds:
  "attempt \<le> maxAttempts \<Longrightarrow> webhook attempt = None \<Longrightarrow>
   triggerN8NWorkflow_from jobID payload webhook attempt =
     [IncrementJobAttempts jobID, TriggerWebhook payload,
      UpdateJobStatus jobID StatusProcessing None]"
  by (subst triggerN8NWorkflow_from.simps) simp

lemma loop_starts:
  "attempt \<le> maxAttempts \<Longrightarrow>
   \<exists>rest. triggerN8NWorkflow_from jobID payload webhook attempt =
     IncrementJobAttempts jobID # TriggerWebhook payload # rest"
  by (subst triggerN8NWorkflow_from.simps) simp

lemma loop_all_fail:
  assumes "\<forall>k. webhook k \<noteq> None"
  shows "triggerN8NWorkflow jobID payload webhook =
     [IncrementJobAttempts jobID, TriggerWebhook payload, Sleep (backoff 1),
      IncrementJobAttempts jobID, TriggerWebhook payload, Sleep (backoff 2),
      IncrementJobAttempts jobID, TriggerWebhook payload,
      UpdateJobStatus jobID StatusFailed
        (Some (''Failed to trigger n8n after 3 attempts: '' @ the (webhook 3)))]"
proof -
  obtain e1 e2 e3 where e: "webhook 1 = Some e1" "webhook 2 = Some e2" "webhook 3 = Some e3"
    using assms by (meson option.exhaust)
  have "triggerN8NWorkflow_from jobID payload webhook 3 =
     [IncrementJobAttempts jobID, TriggerWebhook payload,
      UpdateJobStatus jobID StatusFailed
        (Some (''Failed to trigger n8n after 3 attempts: '' @ e3))]"
    using loop_last_attempt_fails [of webhook e3 jobID payload] e(3)
    by (simp add: maxAttempts_def)
  moreover have "triggerN8NWorkflow_from jobID payload webhook 2 =
     IncrementJobAttempts jobID # TriggerWebhook payload # Sleep (backoff 2) #
     triggerN8NWorkflow_from jobID payload webhook 3"
    using loop_attempt_fails [of 2 webhook e2 jobID payload] e(2)
    by (simp add: maxAttempts_def eval_nat_numeral)
  moreover have "triggerN8NWorkflow_from jobID payload webhook 1 =
     IncrementJobAttempts jobID # TriggerWebhook payload # Sleep (backoff 1) #
     triggerN8NWorkflow_from jobID payload webhook 2"
    using loop_attempt_fails [of 1 webhook e1 jobID payload] e(1)
    by (simp add: maxAttempts_def eval_nat_numeral)
  ultimately show ?thesis
    using e(3) by (simp add: triggerN8NWorkflow_def)
qed

lemma loop_first_succeeds:
  "webhook 1 = None \<Longrightarrow>
   triggerN8NWorkflow jobID payload webhook =
     [IncrementJobAttempts jobID, TriggerWebhook payload,
      UpdateJobStatus jobID StatusProcessing None]"
  using loop_attempt_succeeds [of 1 webhook jobID payload]
  by (simp add: triggerN8NWorkflow_def maxAttempts_def)

lemma loop_second_succeeds:
  "webhook 1 = Some err \<Longrightarrow> webhook 2 = None \<Longrightarrow>
   triggerN8NWorkflow jobID payload webhook =
     [IncrementJobAttempts jobID, TriggerWebhook payload, Sleep (backoff 1),
      IncrementJobAttempts jobID, TriggerWebhook payload,
      UpdateJobStatus jobID StatusProcessing None]"
  using loop_attempt_succeeds [of 2 webhook jobID payload]
    loop_attempt_fails [of 1 webhook err jobID payload]
  by (simp add: triggerN8NWorkflow_def maxAttempts_def eval_nat_numeral)

lemma loop_effect_loop:
  "\<forall>e \<in> set (triggerN8NWorkflow_from jobID payload webhook attempt). loop_effect e"
proof (induction jobID payload webhook attempt rule: triggerN8NWorkflow_from.induct)
  case (1 jobID payload webhook attempt)
  show ?case
    using 1
    by (subst triggerN8NWorkflow_from.simps) (auto simp: loop_effect_def split: option.splits)
qed

subsection \<open>What the operations write\<close>

lemma CreateJob_fresh:
  assumes "jobID \<notin> dom (jobs (database w))"
  shows "\<exists>job payload.
     Status job = StatusQueued \<and> Attempts job = 0 \<and>
     snd (CreateJob req jobID now1 now2 webhook w) =
       \<lparr>database = (database w)\<lparr>jobs := (jobs (database w))(jobID \<mapsto> job)\<rparr>,
        goroutines = goroutines w @ [triggerN8NWorkflow jobID payload webhook]\<rparr>"
proof -
  define given where "given =
    (case req_Options req of
       None \<Rightarrow> \<lparr>StartSeconds = None, DurationSeconds = None, FadeIn = False,
                 FadeOut = False, Format = ''mp3''\<rparr>
     | Some given \<Rightarrow> given)"
  define payload where "payload =
    \<lparr>p_job_id = jobID, p_source_url = req_SourceURL req,
     p_options = (if Format given = '''' then given\<lparr>Format := ''mp3''\<rparr> else given),
     p_callback_url = ''http://backend:8080/api/v1/n8n-callback''\<rparr>"
  define job where "job =
    \<lparr>ID = jobID, SourceURL = req_SourceURL req, UserID = req_UserID req,
     Status = StatusQueued, CreatedAt = now1, UpdatedAt = now2, Attempts = 0,
     N8NPayload = Some payload, ErrorMessage = None\<rparr>"
  have "snd (CreateJob req jobID now1 now2 webhook w) =
       \<lparr>database = (database w)\<lparr>jobs := (jobs (database w))(jobID \<mapsto> job)\<rparr>,
        goroutines = goroutines w @ [triggerN8NWorkflow jobID payload webhook]\<rparr>"
    unfolding given_def payload_def job_def CreateJob_def store_CreateJob_def Let_def
    using assms by (simp split del: if_split)
  moreover have "Status job = StatusQueued \<and> Attempts job = 0"
    by (simp add: job_def)
  ultimately show ?thesis by blast
qed

lemma CreateJob_duplicate:
  assumes "jobID \<in> dom (jobs (database w))"
  shows "snd (CreateJob req jobID now1 now2 webhook w) = w"
  unfolding CreateJob_def store_CreateJob_def Let_def
  using assms by (simp split del: if_split)

lemma dispatch_newest:
  "step (OpDispatch (length gs) now) \<lparr>database = d, goroutines = gs @ [e # rest]\<rparr> =
     \<lparr>database = perform e now d, goroutines = gs @ [rest]\<rparr>"
  by simp

lemma dispatch_finished:
  "step (OpDispatch (length gs) now) \<lparr>database = d, goroutines = gs @ [[]]\<rparr> =
     \<lparr>database = d, goroutines = gs @ [[]]\<rparr>"
  by simp

lemma dispatch_effect:
  assumes "loops_only w"
  shows "database (step (OpDispatch g now) w) = database w \<or>
     (\<exists>e. loop_effect e \<and> database (step (OpDispatch g now) w) = perform e now (database w))"
proof (cases "g < length (goroutines w)")
  case True
  show ?thesis
  proof (cases "goroutines w ! g")
    case Nil
    with True show ?thesis by simp
  next
    case (Cons e rest)
    with assms True have "loop_effect e"
      by (metis loops_only_def nth_mem list.set_intros(1))
    with True Cons show ?thesis by auto
  qed
next
  case False
  then show ?thesis by simp
qed

lemma perform_effect:
  assumes "loop_effect e"
  shows "perform e now db = db \<or>
     (\<exists>jobID job. jobs db jobID = Some job \<and>
        (perform e now db =
           db\<lparr>jobs := (jobs db)(jobID \<mapsto> job\<lparr>Attempts := Attempts job + 1, UpdatedAt := now\<rparr>)\<rparr> \<or>
         (\<exists>status msg. (status = StatusProcessing \<or> status = StatusFailed) \<and>
            perform e now db =
              db\<lparr>jobs := (jobs db)(jobID \<mapsto>
                   job\<lparr>Status := status, UpdatedAt := now, ErrorMessage := msg\<rparr>)\<rparr>)))"
proof (cases e)
  case (IncrementJobAttempts jobID)
  then show ?thesis
    by (cases "jobs db jobID") (auto simp: store_IncrementJobAttempts_def)
next
  case (UpdateJobStatus jobID status msg)
  with assms have "status = StatusProcessing \<or> status = StatusFailed"
    by (simp add: loop_effect_def)
  with UpdateJobStatus show ?thesis
    by (cases "jobs db jobID") (auto simp: store_UpdateJobStatus_def)
qed simp_all

lemma GetJobStatus_database: "snd (GetJobStatus jobID db) = db"
  by (auto simp: GetJobStatus_def store_GetJob_def store_GetRingtoneByJobID_def Let_def
      split: option.splits)

lemma HandleCallback_completed:
  assumes "jobs db (cb_JobID req) = Some job" and "cb_Status req = StatusCompleted"
    and "cb_FilePath req = Some filePath"
  shows "\<exists>row. JobID row = cb_JobID req \<and> FileName row = filePath \<and> RFormat row = ''mp3'' \<and>
     HandleCallback req now1 now2 db =
       (None, db\<lparr>ringtones := ringtones db @ [row],
                 jobs := (jobs db)(cb_JobID req \<mapsto>
                   job\<lparr>Status := StatusCompleted, UpdatedAt := now2, ErrorMessage := None\<rparr>)\<rparr>)"
proof -
  define row where "row = \<lparr>RID = int (length (ringtones db)) + 1, JobID = cb_JobID req,
     FileName = filePath, FilePath = filePath, RFormat = ''mp3'',
     RDurationSeconds =
       (case cb_Metadata req of
          None \<Rightarrow> None
        | Some metadata \<Rightarrow>
            (case metadata ''duration'' of
               Some (JNumber d) \<Rightarrow> Some (float64_to_int d)
             | _ \<Rightarrow> None)),
     RCreatedAt = now1\<rparr>"
  have "HandleCallback req now1 now2 db =
    (None, db\<lparr>ringtones := ringtones db @ [row],
              jobs := (jobs db)(cb_JobID req \<mapsto>
                job\<lparr>Status := StatusCompleted, UpdatedAt := now2, ErrorMessage := None\<rparr>)\<rparr>)"
    using assms
    by (simp add: HandleCallback_def store_defs handleCompletedCallback_def Let_def row_def domI)
  moreover have "JobID row = cb_JobID req \<and> FileName row = filePath \<and> RFormat row = ''mp3''"
    by (simp add: row_def)
  ultimately show ?thesis by blast
qed

lemma HandleCallback_failed:
  assumes "jobs db (cb_JobID req) = Some job" and "cb_Status req = StatusFailed"
  shows "HandleCallback req now1 now2 db =
       (None, db\<lparr>jobs := (jobs db)(cb_JobID req \<mapsto>
                   job\<lparr>Status := StatusFailed, UpdatedAt := now2,
                       ErrorMessage :=
                         Some (case cb_Metadata req of
                          None \<Rightarrow> ''Job failed in n8n workflow''
                        | Some metadata \<Rightarrow>
                            (case metadata ''error'' of
                               Some (JString msg) \<Rightarrow> msg
                             | _ \<Rightarrow> ''Job failed in n8n workflow''))\<rparr>)\<rparr>)"
  using assms
  by (simp add: HandleCallback_def store_defs handleFailedCallback_def Let_def status_defs)

lemma HandleCallback_effect:
  "\<exists>res db'. HandleCallback req now1 now2 db = (res, db') \<and>
     (db' = db \<and> res \<noteq> None \<or>
      (\<exists>job row. jobs db (cb_JobID req) = Some job \<and> res = None \<and>
         cb_Status req = StatusCompleted \<and> cb_FilePath req = Some (FileName row) \<and>
         JobID row = cb_JobID req \<and> RFormat row = ''mp3'' \<and>
         db' = db\<lparr>ringtones := ringtones db @ [row],
                  jobs := (jobs db)(cb_JobID req \<mapsto>
                    job\<lparr>Status := StatusCompleted, UpdatedAt := now2, ErrorMessage := None\<rparr>)\<rparr>) \<or>
      (\<exists>job msg. jobs db (cb_JobID req) = Some job \<and> res = None \<and>
         cb_Status req = StatusFailed \<and>
         db' = db\<lparr>jobs := (jobs db)(cb_JobID req \<mapsto>
                    job\<lparr>Status := StatusFailed, UpdatedAt := now2,
                        ErrorMessage := Some msg\<rparr>)\<rparr>))"
proof (cases "jobs db (cb_JobID req)")
  case None
  then show ?thesis by (simp add: HandleCallback_def store_GetJob_def)
next
  case (Some job)
  consider (completed) "cb_Status req = StatusCompleted"
    | (failed) "cb_Status req \<noteq> StatusCompleted" "cb_Status req = StatusFailed"
    | (other) "cb_Status req \<noteq> StatusCompleted" "cb_Status req \<noteq> StatusFailed"
    by blast
  then show ?thesis
  proof cases
    case completed
    show ?thesis
    proof (cases "cb_FilePath req")
      case None
      with Some completed show ?thesis
        by (simp add: HandleCallback_def store_GetJob_def handleCompletedCallback_def)
    next
      case (Some filePath)
      from HandleCallback_completed [OF \<open>jobs db (cb_JobID req) = Some job\<close> completed Some]
        \<open>jobs db (cb_JobID req) = Some job\<close> completed Some
      show ?thesis by fastforce
    qed
  next
    case failed
    from HandleCallback_failed [OF Some failed(2)] Some failed show ?thesis
      by fastforce
  next
    case other
    with Some show ?thesis
      by (simp add: HandleCallback_def store_defs)
  qed
qed

subsection \<open>Invariants\<close>

lemma loops_only_initial: "loops_only initial_world"
  by (simp add: loops_only_def initial_world_def)

lemma loops_only_step: "loops_only w \<Longrightarrow> loops_only (step op w)"
proof (cases op)
  case (OpCreateJob req jobID now1 now2 webhook)
  assume w: "loops_only w"
  show ?thesis
  proof (cases "jobID \<in> dom (jobs (database w))")
    case True
    with w show ?thesis by (simp add: OpCreateJob CreateJob_duplicate)
  next
    case False
    from CreateJob_fresh [OF False, of req now1 now2 webhook] w loop_effect_loop
    show ?thesis
      by (auto simp: OpCreateJob loops_only_def triggerN8NWorkflow_def)
  qed
next
  case (OpDispatch g now)
  assume w: "loops_only w"
  show ?thesis
  proof (cases "g < length (goroutines w)")
    case True
    show ?thesis
    proof (cases "goroutines w ! g")
      case Nil
      with w True show ?thesis by (simp add: OpDispatch)
    next
      case (Cons e rest)
      from w True Cons have "\<forall>e \<in> set rest. loop_effect e"
        by (metis loops_only_def nth_mem list.set_intros(2))
      with w True Cons show ?thesis
        by (auto simp: OpDispatch loops_only_def dest!: set_update_subset_insert [THEN subsetD])
    qed
  next
    case False
    with w show ?thesis by (simp add: OpDispatch)
  qed
qed (simp_all add: loops_only_def)

lemma loops_only_run: "loops_only w \<Longrightarrow> loops_only (run ops w)"
  unfolding run_def by (induction ops arbitrary: w) (simp_all add: loops_only_step)

lemma run_append: "run (ops @ later) w = run later (run ops w)"
  by (simp add: run_def)

lemma status_step:
  assumes w: "loops_only w" and s: "status_of jobID (database w) = Some s"
  shows "\<exists>s'. status_of jobID (database (step op w)) = Some s' \<and>
     (s' = s \<or> s' = StatusCompleted \<or> s' = StatusFailed \<or>
      (s' = StatusProcessing \<and> (\<exists>g now. op = OpDispatch g now)))"
proof (cases op)
  case (OpCreateJob req newID now1 now2 webhook)
  show ?thesis
  proof (cases "newID \<in> dom (jobs (database w))")
    case True
    with s show ?thesis by (simp add: OpCreateJob CreateJob_duplicate)
  next
    case False
    with s have "newID \<noteq> jobID" by (auto simp: status_of_def)
    with CreateJob_fresh [OF False, of req now1 now2 webhook] s show ?thesis
      by (auto simp: OpCreateJob status_of_def)
  qed
next
  case (OpHandleCallback req now1 now2)
  from HandleCallback_effect [of req now1 now2 "database w"] s show ?thesis
    by (auto simp: OpHandleCallback status_of_def)
next
  case (OpGetJobStatus queried)
  with s show ?thesis by (simp add: GetJobStatus_database)
next
  case (OpDispatch g now)
  from dispatch_effect [OF w, of g now] consider
    (same) "database (step (OpDispatch g now) w) = database w"
    | (effect) e where "loop_effect e"
        "database (step (OpDispatch g now) w) = perform e now (database w)"
    by blast
  then show ?thesis
  proof cases
    case same
    with s show ?thesis by (simp add: OpDispatch)
  next
    case effect
    from perform_effect [OF effect(1), of now "database w"] s show ?thesis
      unfolding OpDispatch effect(2) by (auto simp: status_of_def)
  qed
qed

lemma status_run:
  assumes "loops_only w" and "status_of jobID (database w) = Some s"
    and "s = StatusProcessing \<or> s = StatusCompleted \<or> s = StatusFailed"
  shows "\<exists>s'. status_of jobID (database (run ops w)) = Some s' \<and>
     (s' = StatusProcessing \<or> s' = StatusCompleted \<or> s' = StatusFailed)"
  using assms
proof (induction ops arbitrary: w s)
  case Nil
  then show ?case by (simp add: run_def)
next
  case (Cons op ops)
  from status_step [OF Cons.prems(1,2), of op] Cons.prems(3)
  obtain s1 where s1: "status_of jobID (database (step op w)) = Some s1"
    "s1 = StatusProcessing \<or> s1 = StatusCompleted \<or> s1 = StatusFailed"
    by blast
  from Cons.IH [OF loops_only_step [OF Cons.prems(1)] s1] show ?case
    by (simp add: run_def)
qed

lemma consistent_perform:
  assumes "loop_effect e" and "consistent db"
  shows "consistent (perform e now db)"
  using perform_effect [OF assms(1), of now db] assms(2)
  by (auto simp: consistent_def results_of_def StatusProcessing_def StatusFailed_def
      StatusCompleted_def StatusQueued_def split: if_splits)

lemma consistent_HandleCallback:
  assumes "consistent db"
  shows "consistent (snd (HandleCallback req now1 now2 db))"
  using HandleCallback_effect [of req now1 now2 db] assms
  by (auto simp: consistent_def results_of_def StatusProcessing_def StatusFailed_def
      StatusCompleted_def StatusQueued_def split: if_splits)

lemma consistent_CreateJob:
  assumes "consistent (database w)"
  shows "consistent (database (snd (CreateJob req jobID now1 now2 webhook w)))"
proof (cases "jobID \<in> dom (jobs (database w))")
  case True
  with assms show ?thesis by (simp add: CreateJob_duplicate)
next
  case False
  from assms False have "results_of jobID (database w) = []"
    by (auto simp: consistent_def results_of_def filter_empty_conv)
  with CreateJob_fresh [OF False, of req now1 now2 webhook] assms False show ?thesis
    by (auto simp: consistent_def results_of_def StatusCompleted_def StatusQueued_def
        split: if_splits)
qed

lemma consistent_step:
  assumes "loops_only w" and "consistent (database w)"
  shows "consistent (database (step op w))"
proof (cases op)
  case (OpCreateJob req jobID now1 now2 webhook)
  with assms(2) show ?thesis by (simp add: consistent_CreateJob)
next
  case (OpHandleCallback req now1 now2)
  with assms(2) show ?thesis by (simp add: consistent_HandleCallback)
next
  case (OpGetJobStatus jobID)
  with assms(2) show ?thesis by (simp add: GetJobStatus_database)
next
  case (OpDispatch g now)
  from dispatch_effect [OF assms(1), of g now] assms(2) show ?thesis
    unfolding OpDispatch by (auto simp: consistent_perform)
qed

lemma consistent_run:
  "loops_only w \<Longrightarrow> consistent (database w) \<Longrightarrow> consistent (database (run ops w))"
  unfolding run_def
  by (induction ops arbitrary: w) (simp_all add: loops_only_step consistent_step)

lemma consistent_initial: "consistent (database initial_world)"
  by (simp add: consistent_def initial_world_def)

subsection \<open>A callback for a job that is already terminal\<close>

text \<open>
  Claim C1, as stated, fails: \<open>HandleCallback\<close> reads the job only to see that it exists
  and never looks at its status. On the job of \<open>reconciled\<close>, which is \<open>completed\<close> with one
  Result record written at time 5, the same report again succeeds, leaves two Result
  records and moves \<open>updated_at\<close> to 6; a \<open>failed\<close> report succeeds as well and moves the
  job from \<open>completed\<close> to \<open>failed\<close>.
\<close>

theorem duplicate_report_counterexample:
  "status_of ''job1'' (database (run reconciled initial_world)) = Some StatusCompleted \<and>
   length (results_of ''job1'' (database (run reconciled initial_world))) = 1 \<and>
   map_option UpdatedAt (jobs (database (run reconciled initial_world)) ''job1'') = Some 5 \<and>
   fst (HandleCallback example_report 6 6 (database (run reconciled initial_world))) = None \<and>
   length (results_of ''job1''
     (snd (HandleCallback example_report 6 6 (database (run reconciled initial_world))))) = 2 \<and>
   map_option UpdatedAt
     (jobs (snd (HandleCallback example_report 6 6 (database (run reconciled initial_world))))
        ''job1'') = Some 6 \<and>
   fst (HandleCallback example_report_failed 6 6 (database (run reconciled initial_world))) =
     None \<and>
   status_of ''job1''
     (snd (HandleCallback example_report_failed 6 6 (database (run reconciled initial_world)))) =
     Some StatusFailed"
  by code_simp

text \<open>
  Claim C1, amended. For every existing job, terminal or not, a callback with a
  well-formed report succeeds and writes: a \<open>completed\<close> report with a file name appends one
  Result record for the job and sets the status to \<open>completed\<close>, \<open>updated_at\<close> to the clock
  and the error message to null; a \<open>failed\<close> report sets the status to \<open>failed\<close>, stores as
  error message the text under the key \<open>error\<close> of the metadata when that is a string and
  the text \<open>Job failed in n8n workflow\<close> otherwise, and appends nothing. Reconciling
  twice with the same \<open>completed\<close> report succeeds both times and leaves the job in
  \<open>completed\<close> with two more Result records than before.
\<close>

theorem callback_on_existing_job:
  assumes job: "jobs db (cb_JobID req) = Some job"
  shows "(cb_Status req = StatusCompleted \<and> cb_FilePath req = Some filePath \<longrightarrow>
           (\<exists>row. JobID row = cb_JobID req \<and> FileName row = filePath \<and>
              HandleCallback req now1 now2 db =
                (None, db\<lparr>ringtones := ringtones db @ [row],
                   jobs := (jobs db)(cb_JobID req \<mapsto>
                     job\<lparr>Status := StatusCompleted, UpdatedAt := now2,
                         ErrorMessage := None\<rparr>)\<rparr>)) \<and>
           fst (HandleCallback req now3 now4 (snd (HandleCallback req now1 now2 db))) = None \<and>
           length (results_of (cb_JobID req)
              (snd (HandleCallback req now3 now4 (snd (HandleCallback req now1 now2 db))))) =
             length (results_of (cb_JobID req) db) + 2 \<and>
           status_of (cb_JobID req)
              (snd (HandleCallback req now3 now4 (snd (HandleCallback req now1 now2 db)))) =
             Some StatusCompleted) \<and>
         (cb_Status req = StatusFailed \<longrightarrow>
           HandleCallback req now1 now2 db =
             (None, db\<lparr>jobs := (jobs db)(cb_JobID req \<mapsto>
                job\<lparr>Status := StatusFailed, UpdatedAt := now2,
                    ErrorMessage :=
                      Some (case cb_Metadata req of
                          None \<Rightarrow> ''Job failed in n8n workflow''
                        | Some metadata \<Rightarrow>
                            (case metadata ''error'' of
                               Some (JString msg) \<Rightarrow> msg
                             | _ \<Rightarrow> ''Job failed in n8n workflow''))\<rparr>)\<rparr>))"
proof (intro conjI impI)
  assume c: "cb_Status req = StatusCompleted \<and> cb_FilePath req = Some filePath"
  then obtain row1 where row1: "JobID row1 = cb_JobID req" "FileName row1 = filePath"
    and first: "HandleCallback req now1 now2 db =
       (None, db\<lparr>ringtones := ringtones db @ [row1],
                 jobs := (jobs db)(cb_JobID req \<mapsto>
                   job\<lparr>Status := StatusCompleted, UpdatedAt := now2, ErrorMessage := None\<rparr>)\<rparr>)"
    using HandleCallback_completed [OF job, of filePath now1 now2] by blast
  define db1 where "db1 = snd (HandleCallback req now1 now2 db)"
  have job1: "jobs db1 (cb_JobID req) =
      Some (job\<lparr>Status := StatusCompleted, UpdatedAt := now2, ErrorMessage := None\<rparr>)"
    by (simp add: db1_def first)
  obtain row2 where row2: "JobID row2 = cb_JobID req"
    and second: "HandleCallback req now3 now4 db1 =
       (None, db1\<lparr>ringtones := ringtones db1 @ [row2],
                 jobs := (jobs db1)(cb_JobID req \<mapsto>
                   job\<lparr>Status := StatusCompleted, UpdatedAt := now2, ErrorMessage := None,
                       Status := StatusCompleted, UpdatedAt := now4, ErrorMessage := None\<rparr>)\<rparr>)"
    using HandleCallback_completed [OF job1, of filePath now3 now4] c by blast
  show "\<exists>row. JobID row = cb_JobID req \<and> FileName row = filePath \<and>
      HandleCallback req now1 now2 db =
        (None, db\<lparr>ringtones := ringtones db @ [row],
           jobs := (jobs db)(cb_JobID req \<mapsto>
             job\<lparr>Status := StatusCompleted, UpdatedAt := now2, ErrorMessage := None\<rparr>)\<rparr>)"
    using row1 first by blast
  show "fst (HandleCallback req now3 now4 (snd (HandleCallback req now1 now2 db))) = None"
    using second by (simp add: db1_def)
  show "length (results_of (cb_JobID req)
          (snd (HandleCallback req now3 now4 (snd (HandleCallback req now1 now2 db))))) =
        length (results_of (cb_JobID req) db) + 2"
    using second row1 row2 unfolding db1_def [symmetric]
    by (simp add: results_of_def db1_def first)
  show "status_of (cb_JobID req)
          (snd (HandleCallback req now3 now4 (snd (HandleCallback req now1 now2 db)))) =
        Some StatusCompleted"
    using second unfolding db1_def [symmetric] by (simp add: status_of_def)
next
  assume "cb_Status req = StatusFailed"
  from HandleCallback_failed [OF job this]
  show "HandleCallback req now1 now2 db =
      (None, db\<lparr>jobs := (jobs db)(cb_JobID req \<mapsto>
         job\<lparr>Status := StatusFailed, UpdatedAt := now2,
             ErrorMessage :=
               Some (case cb_Metadata req of
                          None \<Rightarrow> ''Job failed in n8n workflow''
                        | Some metadata \<Rightarrow>
                            (case metadata ''error'' of
                               Some (JString msg) \<Rightarrow> msg
                             | _ \<Rightarrow> ''Job failed in n8n workflow''))\<rparr>)\<rparr>)" .
qed

theorem callback_on_existing_job_witness:
  "status_of (cb_JobID example_report) (database (run reconciled initial_world)) =
     Some StatusCompleted \<and>
   cb_Status example_report = StatusCompleted \<and>
   cb_FilePath example_report = Some ''job1.mp3'' \<and>
   fst (HandleCallback example_report 6 6 (database (run reconciled initial_world))) = None \<and>
   length (results_of (cb_JobID example_report)
      (snd (HandleCallback example_report 7 7
         (snd (HandleCallback example_report 6 6 (database (run reconciled initial_world))))))) =
     length (results_of (cb_JobID example_report) (database (run reconciled initial_world))) + 2 \<and>
   cb_Status example_report_failed = StatusFailed \<and>
   fst (HandleCallback example_report_failed 6 6 (database (run reconciled initial_world))) =
     None \<and>
   map_option ErrorMessage
     (jobs (snd (HandleCallback example_report_failed 6 6
                   (database (run reconciled initial_world)))) ''job1'') =
     Some (Some ''download failed'') \<and>
   map_option ErrorMessage
     (jobs (snd (HandleCallback (example_report_failed\<lparr>cb_Metadata := None\<rparr>) 6 6
                   (database (run reconciled initial_world)))) ''job1'') =
     Some (Some ''Job failed in n8n workflow'')"
proof -
  have a: "status_of (cb_JobID example_report) (database (run reconciled initial_world)) =
     Some StatusCompleted"
    by code_simp
  then obtain job where
    job: "jobs (database (run reconciled initial_world)) (cb_JobID example_report) = Some job"
    by (auto simp: status_of_def)
  have ids: "cb_JobID example_report_failed = cb_JobID example_report"
    "cb_JobID (example_report_failed\<lparr>cb_Metadata := None\<rparr>) = cb_JobID example_report"
    "cb_JobID example_report = ''job1''"
    by (simp_all add: example_report_failed_def example_report_def)
  have b: "cb_Status example_report = StatusCompleted \<and>
     cb_FilePath example_report = Some ''job1.mp3''"
    by (simp add: example_report_def StatusCompleted_def)
  have c: "cb_Status example_report_failed = StatusFailed"
    "cb_Status (example_report_failed\<lparr>cb_Metadata := None\<rparr>) = StatusFailed"
    by (simp_all add: example_report_failed_def StatusFailed_def)
  have d: "cb_Metadata example_report_failed = Some [''error'' \<mapsto> JString ''download failed'']"
    by (simp add: example_report_failed_def)
  from callback_on_existing_job [OF job, of "''job1.mp3''" 6 6 7 7] b
  have completed: "fst (HandleCallback example_report 6 6
        (database (run reconciled initial_world))) = None \<and>
     length (results_of (cb_JobID example_report)
      (snd (HandleCallback example_report 7 7
         (snd (HandleCallback example_report 6 6 (database (run reconciled initial_world))))))) =
     length (results_of (cb_JobID example_report) (database (run reconciled initial_world))) + 2"
    by auto
  from callback_on_existing_job [of _ example_report_failed, OF job [folded ids(1)], of _ 6 6] c(1) d
  have failed: "fst (HandleCallback example_report_failed 6 6
        (database (run reconciled initial_world))) = None \<and>
     map_option ErrorMessage
       (jobs (snd (HandleCallback example_report_failed 6 6
                   (database (run reconciled initial_world)))) ''job1'') =
     Some (Some ''download failed'')"
    by (simp add: ids)
  from callback_on_existing_job
    [of _ "example_report_failed\<lparr>cb_Metadata := None\<rparr>", OF job [folded ids(2)], of _ 6 6] c(2)
  have generic: "map_option ErrorMessage
     (jobs (snd (HandleCallback (example_report_failed\<lparr>cb_Metadata := None\<rparr>) 6 6
                   (database (run reconciled initial_world)))) ''job1'') =
     Some (Some ''Job failed in n8n workflow'')"
    by (simp add: ids)
  from a b c(1) completed failed generic show ?thesis by blast
qed

subsection \<open>Result records and status\<close>

text \<open>
  Claim C2, as stated, fails. After a second \<open>completed\<close> report the job is \<open>completed\<close>
  with two Result records; after a \<open>failed\<close> report that follows a \<open>completed\<close> one it is
  \<open>failed\<close> with one; and when the goroutine writes \<open>processing\<close> after the worker has
  reported completion, it is \<open>processing\<close> with one.
\<close>

theorem exclusivity_counterexample:
  "status_of ''job1''
     (database (run (reconciled @ [OpHandleCallback example_report 6 6]) initial_world)) =
     Some StatusCompleted \<and>
   length (results_of ''job1''
     (database (run (reconciled @ [OpHandleCallback example_report 6 6]) initial_world))) = 2 \<and>
   status_of ''job1''
     (database (run (reconciled @ [OpHandleCallback example_report_failed 6 6]) initial_world)) =
     Some StatusFailed \<and>
   length (results_of ''job1''
     (database (run (reconciled @ [OpHandleCallback example_report_failed 6 6]) initial_world))) = 1 \<and>
   status_of ''job1''
     (database (run (completed_during_backoff @ second_attempt) initial_world)) =
     Some StatusProcessing \<and>
   length (results_of ''job1''
     (database (run (completed_during_backoff @ second_attempt) initial_world))) = 1"
  by code_simp

text \<open>
  Claim C2, amended. In every state reached from the empty database by any sequence of
  submissions, callbacks, status queries and calls of dispatch goroutines, a job in
  \<open>completed\<close> has at least one Result record and a job in \<open>queued\<close> has none.
\<close>

theorem completed_has_result_queued_has_none:
  "jobs (database (run ops initial_world)) jobID = Some job \<Longrightarrow>
     (Status job = StatusCompleted \<longrightarrow>
        1 \<le> length (results_of jobID (database (run ops initial_world)))) \<and>
     (Status job = StatusQueued \<longrightarrow>
        results_of jobID (database (run ops initial_world)) = [])"
  using consistent_run [OF loops_only_initial consistent_initial, of ops]
  by (auto simp: consistent_def Suc_le_eq)

theorem completed_has_result_queued_has_none_witness:
  "(\<exists>job. jobs (database (run reconciled initial_world)) ''job1'' = Some job \<and>
      Status job = StatusCompleted) \<and>
   1 \<le> length (results_of ''job1'' (database (run reconciled initial_world)))"
proof -
  have "status_of ''job1'' (database (run reconciled initial_world)) = Some StatusCompleted"
    by code_simp
  then obtain job where job: "jobs (database (run reconciled initial_world)) ''job1'' = Some job"
    "Status job = StatusCompleted" by (auto simp: status_of_def)
  from completed_has_result_queued_has_none [OF job(1)] job show ?thesis by blast
qed

subsection \<open>Regression of the status\<close>

text \<open>
  Claim C3, as stated, fails. In \<open>completed_during_backoff\<close> the job is \<open>completed\<close>; the
  goroutine then makes its second attempt and writes \<open>processing\<close> over it.
\<close>

theorem regression_counterexample:
  "status_of ''job1'' (database (run completed_during_backoff initial_world)) =
     Some StatusCompleted \<and>
   status_of ''job1''
     (database (run (completed_during_backoff @ second_attempt) initial_world)) =
     Some StatusProcessing"
  by code_simp

text \<open>
  Claim C3, amended. Let a job be \<open>completed\<close> or \<open>failed\<close> in a reachable state. After any
  further operations the job still exists and its status is \<open>processing\<close>, \<open>completed\<close> or
  \<open>failed\<close>, never \<open>queued\<close>. After one further operation the status is \<open>completed\<close> or
  \<open>failed\<close>, unless the operation is a call of a dispatch goroutine, which can also leave
  \<open>processing\<close>: no callback moves the job out of the terminal states.
\<close>

theorem terminal_status_not_requeued:
  assumes "status_of jobID (database (run ops initial_world)) = Some s"
    and "s = StatusCompleted \<or> s = StatusFailed"
  shows "(\<exists>s'. status_of jobID (database (run (ops @ later) initial_world)) = Some s' \<and>
            (s' = StatusProcessing \<or> s' = StatusCompleted \<or> s' = StatusFailed) \<and>
            s' \<noteq> StatusQueued) \<and>
         (\<forall>op. \<exists>s'. status_of jobID (database (step op (run ops initial_world))) = Some s' \<and>
            (s' = StatusCompleted \<or> s' = StatusFailed \<or>
             (s' = StatusProcessing \<and> (\<exists>g now. op = OpDispatch g now))))"
proof -
  have loops: "loops_only (run ops initial_world)"
    by (simp add: loops_only_run loops_only_initial)
  from assms(2) have "s = StatusProcessing \<or> s = StatusCompleted \<or> s = StatusFailed"
    by blast
  from status_run [OF loops assms(1) this, of later]
  have "\<exists>s'. status_of jobID (database (run (ops @ later) initial_world)) = Some s' \<and>
            (s' = StatusProcessing \<or> s' = StatusCompleted \<or> s' = StatusFailed) \<and>
            s' \<noteq> StatusQueued"
    by (auto simp: run_append status_defs)
  moreover have "\<exists>s'. status_of jobID (database (step op (run ops initial_world))) = Some s' \<and>
            (s' = StatusCompleted \<or> s' = StatusFailed \<or>
             (s' = StatusProcessing \<and> (\<exists>g now. op = OpDispatch g now)))" for op
    using status_step [OF loops assms(1), of op] assms(2) by auto
  ultimately show ?thesis by blast
qed

theorem terminal_status_not_requeued_witness:
  "status_of ''job1'' (database (run completed_during_backoff initial_world)) =
     Some StatusCompleted \<and>
   (StatusCompleted = StatusCompleted \<or> StatusCompleted = StatusFailed) \<and>
   (\<exists>s'. status_of ''job1''
       (database (run (completed_during_backoff @ second_attempt) initial_world)) = Some s' \<and>
      s' \<noteq> StatusQueued) \<and>
   (\<exists>s'. status_of ''job1''
       (database (step (OpHandleCallback example_report_failed 6 6)
          (run completed_during_backoff initial_world))) = Some s' \<and>
      (s' = StatusCompleted \<or> s' = StatusFailed))"
proof -
  have a: "status_of ''job1'' (database (run completed_during_backoff initial_world)) =
     Some StatusCompleted"
    by code_simp
  have b: "StatusCompleted = StatusCompleted \<or> StatusCompleted = StatusFailed"
    by simp
  from terminal_status_not_requeued [OF a b, of second_attempt] a b show ?thesis
    by (metis op.distinct(9))
qed

subsection \<open>Retry budget and backoff\<close>

text \<open>
  Claim C4. A job is submitted under a fresh identifier and every webhook call of its
  dispatch goroutine fails. The goroutine makes exactly three webhook calls; once it has
  made its nine calls, the job has status \<open>failed\<close>, an error message that is not empty and
  \<open>attempts = 3\<close>, the goroutine has nothing left to do, and scheduling it again changes
  nothing.
\<close>

theorem retry_exhaustion_marks_failed:
  assumes fresh: "jobID \<notin> dom (jobs (database w))"
    and fails: "\<forall>attempt. webhook attempt \<noteq> None"
    and times: "length ts = 9"
  shows "let w1 = snd (CreateJob req jobID now1 now2 webhook w);
             g = length (goroutines w);
             w2 = run (map (OpDispatch g) ts) w1
         in length (filter is_TriggerWebhook (goroutines w1 ! g)) = 3 \<and>
            (\<exists>job msg. jobs (database w2) jobID = Some job \<and> Status job = StatusFailed \<and>
               ErrorMessage job = Some msg \<and> msg \<noteq> '''' \<and> Attempts job = 3) \<and>
            goroutines w2 ! g = [] \<and>
            (\<forall>now. step (OpDispatch g now) w2 = w2)"
proof -
  obtain t1 t2 t3 t4 t5 t6 t7 t8 t9 where ts: "ts = [t1, t2, t3, t4, t5, t6, t7, t8, t9]"
    using times by (auto simp: eval_nat_numeral length_Suc_conv)
  obtain job payload where job: "Status job = StatusQueued" "Attempts job = 0"
    and w1: "snd (CreateJob req jobID now1 now2 webhook w) =
       \<lparr>database = (database w)\<lparr>jobs := (jobs (database w))(jobID \<mapsto> job)\<rparr>,
        goroutines = goroutines w @ [triggerN8NWorkflow jobID payload webhook]\<rparr>"
    using CreateJob_fresh [OF fresh] by blast
  show ?thesis
    by (simp add: w1 ts run_def store_defs Let_def loop_all_fail [OF fails]
        is_TriggerWebhook_def job dispatch_newest dispatch_finished del: step.simps)
qed

theorem retry_exhaustion_marks_failed_witness:
  "''job1'' \<notin> dom (jobs (database initial_world)) \<and>
   (\<forall>attempt. always_fails attempt \<noteq> None) \<and>
   length [2, 3, 4, 5, 6, 7, 8, 9, 10 :: nat] = 9 \<and>
   (\<exists>job. jobs (database (run (map (OpDispatch 0) [2, 3, 4, 5, 6, 7, 8, 9, 10])
                (snd (CreateJob example_request ''job1'' 1 1 always_fails initial_world))))
             ''job1'' = Some job \<and>
          Status job = ''failed'' \<and> Attempts job = 3 \<and>
          ErrorMessage job = Some ''Failed to trigger n8n after 3 attempts: timeout'')"
proof -
  have fresh: "''job1'' \<notin> dom (jobs (database initial_world))"
    by (simp add: initial_world_def)
  have fails: "\<forall>attempt. always_fails attempt \<noteq> None"
    by (simp add: always_fails_def)
  have times: "length [2, 3, 4, 5, 6, 7, 8, 9, 10 :: nat] = 9"
    by simp
  have g: "length (goroutines initial_world) = 0"
    by (simp add: initial_world_def)
  have msg: "map_option ErrorMessage
      (jobs (database (run (map (OpDispatch 0) [2, 3, 4, 5, 6, 7, 8, 9, 10])
                (snd (CreateJob example_request ''job1'' 1 1 always_fails initial_world))))
             ''job1'') = Some (Some ''Failed to trigger n8n after 3 attempts: timeout'')"
    by code_simp
  from retry_exhaustion_marks_failed [OF fresh fails times, of example_request 1 1]
  show ?thesis
    using fresh fails msg unfolding Let_def g StatusFailed_def by auto
qed

text \<open>
  Claim C5. When the attempts \<open>1..k\<close> fail and \<open>k\<close> is below the budget, the loop sleeps
  \<open>backoff k\<close> directly after the \<open>k\<close>-th webhook call and before the increment and the
  webhook call of attempt \<open>k + 1\<close>; \<open>backoff k\<close> is \<open>baseDelay * 2 ^ (k - 1)\<close> without
  wrap-around, and it is smaller than the wait after any later attempt below the budget.
\<close>

theorem backoff_doubles:
  assumes k: "1 \<le> k" "k < maxAttempts"
    and fails: "\<forall>j. 1 \<le> j \<and> j \<le> k \<longrightarrow> webhook j \<noteq> None"
  shows "(\<exists>before after.
            triggerN8NWorkflow jobID payload webhook =
              before @ [TriggerWebhook payload, Sleep (backoff k),
                        IncrementJobAttempts jobID, TriggerWebhook payload] @ after \<and>
            length (filter is_TriggerWebhook before) = k - 1) \<and>
         sint (backoff k) = sint baseDelay * 2 ^ (k - 1) \<and>
         (\<forall>k'. k < k' \<and> k' < maxAttempts \<longrightarrow> sint (backoff k) < sint (backoff k'))"
proof -
  from k have "k = 1 \<or> k = 2" by (auto simp: maxAttempts_def)
  then show ?thesis
  proof
    assume k1: "k = 1"
    from fails k1 obtain e1 where e1: "webhook 1 = Some e1" by auto
    obtain rest where rest: "triggerN8NWorkflow_from jobID payload webhook 2 =
        IncrementJobAttempts jobID # TriggerWebhook payload # rest"
      using loop_starts [of 2 jobID payload webhook] by (auto simp: maxAttempts_def)
    have "triggerN8NWorkflow jobID payload webhook =
      [IncrementJobAttempts jobID] @ [TriggerWebhook payload, Sleep (backoff 1),
          IncrementJobAttempts jobID, TriggerWebhook payload] @ rest"
      using loop_attempt_fails [of 1 webhook e1 jobID payload] e1 rest
      by (simp add: triggerN8NWorkflow_def maxAttempts_def eval_nat_numeral)
    moreover have "length (filter is_TriggerWebhook [IncrementJobAttempts jobID]) = 0"
      by (simp add: is_TriggerWebhook_def)
    moreover have "sint (backoff 1) = sint baseDelay * 2 ^ (1 - 1)"
      by (simp add: backoff_def baseDelay_def)
    moreover have "\<forall>k'. 1 < k' \<and> k' < maxAttempts \<longrightarrow> sint (backoff 1) < sint (backoff k')"
    proof (intro allI impI)
      fix k' assume "1 < k' \<and> k' < maxAttempts"
      then have "k' = 2" by (simp add: maxAttempts_def)
      then show "sint (backoff 1) < sint (backoff k')"
        by (simp add: backoff_def baseDelay_def)
    qed
    ultimately show ?thesis unfolding k1 by (metis diff_self_eq_0)
  next
    assume k2: "k = 2"
    from fails k2 obtain e1 e2 where e: "webhook 1 = Some e1" "webhook 2 = Some e2"
      by (metis one_le_numeral order_refl option.exhaust one_le_numeral)
    obtain rest where rest: "triggerN8NWorkflow_from jobID payload webhook 3 =
        IncrementJobAttempts jobID # TriggerWebhook payload # rest"
      using loop_starts [of 3 jobID payload webhook] by (auto simp: maxAttempts_def)
    have "triggerN8NWorkflow jobID payload webhook =
      [IncrementJobAttempts jobID, TriggerWebhook payload, Sleep (backoff 1),
       IncrementJobAttempts jobID] @ [TriggerWebhook payload, Sleep (backoff 2),
          IncrementJobAttempts jobID, TriggerWebhook payload] @ rest"
      using loop_attempt_fails [of 1 webhook e1 jobID payload]
        loop_attempt_fails [of 2 webhook e2 jobID payload] e rest
      by (simp add: triggerN8NWorkflow_def maxAttempts_def eval_nat_numeral)
    moreover have "length (filter is_TriggerWebhook
       [IncrementJobAttempts jobID, TriggerWebhook payload, Sleep (backoff 1),
        IncrementJobAttempts jobID]) = 2 - 1"
      by (simp add: is_TriggerWebhook_def)
    moreover have "sint (backoff 2) = sint baseDelay * 2 ^ (2 - 1)"
      by (simp add: backoff_def baseDelay_def)
    moreover have "\<forall>k'. 2 < k' \<and> k' < maxAttempts \<longrightarrow> sint (backoff 2) < sint (backoff k')"
      by (simp add: maxAttempts_def)
    ultimately show ?thesis unfolding k2 by blast
  qed
qed

theorem backoff_doubles_witness:
  "1 \<le> (1 :: nat) \<and> 1 < maxAttempts \<and> second_succeeds 1 \<noteq> None \<and>
   (\<exists>before after.
      triggerN8NWorkflow ''job1'' example_payload second_succeeds =
        before @ [TriggerWebhook example_payload, Sleep 1000000000,
                  IncrementJobAttempts ''job1'', TriggerWebhook example_payload] @ after) \<and>
   sint (backoff 1) = 1000000000 \<and> sint (backoff 2) = 2000000000"
proof -
  have a: "1 \<le> (1 :: nat)" "1 < maxAttempts"
    by (simp_all add: maxAttempts_def)
  have b: "\<forall>j. 1 \<le> j \<and> j \<le> 1 \<longrightarrow> second_succeeds j \<noteq> None"
    by (simp add: second_succeeds_def)
  have c: "backoff 1 = 1000000000" "sint (backoff 2) = 2000000000" "sint baseDelay = 1000000000"
    by (simp_all add: backoff_def baseDelay_def)
  from backoff_doubles [OF a b, of "''job1''" example_payload]
  show ?thesis using a b c by auto
qed

subsection \<open>Submission\<close>

text \<open>
  Claim C6. When the identifier drawn is not yet a key of \<open>jobs\<close>, \<open>CreateJob\<close> returns
  the handle with that identifier, the status \<open>queued\<close> and the poll reference
  \<open>/api/v1/job-status/<id>\<close>, and the database it leaves holds the row of the job with
  status \<open>queued\<close> and \<open>attempts = 0\<close>; a status query on that database shows the job as
  \<open>queued\<close>. For a request the handler accepts as valid, the handler answers 202 with the
  same handle and leaves the same state.
\<close>

theorem submission_persists_queued_job:
  assumes "jobID \<notin> dom (jobs (database w))"
  shows "\<exists>w' job view.
     CreateJob req jobID now1 now2 webhook w =
       (Inr \<lparr>resp_JobID = jobID, resp_Status = StatusQueued,
             resp_PollURL = ''/api/v1/job-status/'' @ jobID\<rparr>, w') \<and>
     jobs (database w') jobID = Some job \<and> ID job = jobID \<and>
     SourceURL job = req_SourceURL req \<and> Status job = StatusQueued \<and> Attempts job = 0 \<and>
     GetJobStatus jobID (database w') = (Inr view, database w') \<and>
     js_JobID view = jobID \<and> js_Status view = StatusQueued \<and>
     (req_SourceURL req \<noteq> '''' \<and> isValidURL (req_SourceURL req) \<longrightarrow>
        handleCreateRingtone (Some req) jobID now1 now2 webhook w =
          ((202, JobResponse \<lparr>resp_JobID = jobID, resp_Status = StatusQueued,
             resp_PollURL = ''/api/v1/job-status/'' @ jobID\<rparr>), w'))"
  using assms
  by (auto simp: CreateJob_def handleCreateRingtone_def GetJobStatus_def store_defs Let_def
      status_defs)

theorem submission_persists_queued_job_witness:
  "''job1'' \<notin> dom (jobs (database initial_world)) \<and>
   fst (CreateJob example_request ''job1'' 1 1 always_fails initial_world) =
     Inr \<lparr>resp_JobID = ''job1'', resp_Status = ''queued'',
           resp_PollURL = ''/api/v1/job-status/job1''\<rparr> \<and>
   req_SourceURL example_request \<noteq> '''' \<and> isValidURL (req_SourceURL example_request) \<and>
   fst (handleCreateRingtone (Some example_request) ''job1'' 1 1 always_fails initial_world) =
     (202, JobResponse \<lparr>resp_JobID = ''job1'', resp_Status = ''queued'',
           resp_PollURL = ''/api/v1/job-status/job1''\<rparr>)"
proof -
  have fresh: "''job1'' \<notin> dom (jobs (database initial_world))"
    by (simp add: initial_world_def)
  have valid: "req_SourceURL example_request \<noteq> '''' \<and> isValidURL (req_SourceURL example_request)"
    by (simp add: example_request_def isValidURL_def ToLower_def HasPrefix_def to_lower_byte_def)
  from submission_persists_queued_job [OF fresh, of example_request 1 1 always_fails] valid
  show ?thesis using fresh by (auto simp: StatusQueued_def)
qed

text \<open>
  Claim C7. A submission whose body does not decode, whose source reference is empty, or
  whose source reference does not start with \<open>http://\<close> or \<open>https://\<close> is answered with
  400 and an error code, and the state is left as it was: no job is created and no
  dispatch goroutine is started.
\<close>

theorem invalid_submission_rejected:
  "handleCreateRingtone None jobID now1 now2 webhook w =
     ((400, ErrorResponse ''Invalid JSON payload'' ''INVALID_JSON''), w) \<and>
   (req_SourceURL req = '''' \<longrightarrow>
      handleCreateRingtone (Some req) jobID now1 now2 webhook w =
        ((400, ErrorResponse ''source_url is required'' ''MISSING_SOURCE_URL''), w)) \<and>
   (req_SourceURL req \<noteq> '''' \<and> \<not> isValidURL (req_SourceURL req) \<longrightarrow>
      handleCreateRingtone (Some req) jobID now1 now2 webhook w =
        ((400, ErrorResponse ''Invalid source URL format'' ''INVALID_URL''), w))"
  by (simp add: handleCreateRingtone_def)

theorem invalid_submission_rejected_witness:
  "req_SourceURL (example_request\<lparr>req_SourceURL := ''''\<rparr>) = '''' \<and>
   handleCreateRingtone (Some (example_request\<lparr>req_SourceURL := ''''\<rparr>)) ''job1'' 1 1
       always_succeeds initial_world =
     ((400, ErrorResponse ''source_url is required'' ''MISSING_SOURCE_URL''), initial_world) \<and>
   req_SourceURL (example_request\<lparr>req_SourceURL := ''ftp://example.com/v1''\<rparr>) \<noteq> '''' \<and>
   \<not> isValidURL (req_SourceURL (example_request\<lparr>req_SourceURL := ''ftp://example.com/v1''\<rparr>)) \<and>
   handleCreateRingtone (Some (example_request\<lparr>req_SourceURL := ''ftp://example.com/v1''\<rparr>))
       ''job1'' 1 1 always_succeeds initial_world =
     ((400, ErrorResponse ''Invalid source URL format'' ''INVALID_URL''), initial_world)"
proof -
  have a: "req_SourceURL (example_request\<lparr>req_SourceURL := ''''\<rparr>) = ''''"
    by simp
  have b: "req_SourceURL (example_request\<lparr>req_SourceURL := ''ftp://example.com/v1''\<rparr>) \<noteq> '''' \<and>
     \<not> isValidURL (req_SourceURL (example_request\<lparr>req_SourceURL := ''ftp://example.com/v1''\<rparr>))"
    by (simp add: isValidURL_def ToLower_def HasPrefix_def to_lower_byte_def)
  show ?thesis
    using a b
      invalid_submission_rejected [of "''job1''" 1 1 always_succeeds initial_world
        "example_request\<lparr>req_SourceURL := ''''\<rparr>"]
      invalid_submission_rejected [of "''job1''" 1 1 always_succeeds initial_world
        "example_request\<lparr>req_SourceURL := ''ftp://example.com/v1''\<rparr>"]
    by blast
qed

subsection \<open>Callback reconciliation\<close>

text \<open>
  Claim C8. A report with status \<open>completed\<close> and no \<open>file_path\<close> is rejected with an
  error (\<open>file_path is required\<close> when the job exists, \<open>job not found\<close> otherwise), and
  the database is left as it was: the row of the job is unchanged and no Result record is
  created.
\<close>

theorem completed_report_without_file_rejected:
  "cb_Status req = StatusCompleted \<Longrightarrow> cb_FilePath req = None \<Longrightarrow>
   HandleCallback req now1 now2 db =
     (Some (if cb_JobID req \<in> dom (jobs db) then FilePathRequired else JobNotFound), db)"
  by (auto simp: HandleCallback_def handleCompletedCallback_def store_GetJob_def
           split: option.splits)

theorem completed_report_without_file_rejected_witness:
  "cb_Status example_report_no_file = StatusCompleted \<and>
   cb_FilePath example_report_no_file = None \<and>
   status_of ''job1'' (database (run dispatched initial_world)) = Some StatusProcessing \<and>
   HandleCallback example_report_no_file 5 5 (database (run dispatched initial_world)) =
     (Some FilePathRequired, database (run dispatched initial_world))"
proof -
  have a: "cb_Status example_report_no_file = StatusCompleted"
    by (simp add: example_report_no_file_def StatusCompleted_def)
  have b: "cb_FilePath example_report_no_file = None"
    by (simp add: example_report_no_file_def)
  have c: "status_of ''job1'' (database (run dispatched initial_world)) = Some StatusProcessing"
    by (simp add: run_defs dispatched_def loop_first_succeeds always_succeeds_def status_of_def)
  then have d: "cb_JobID example_report_no_file \<in> dom (jobs (database (run dispatched initial_world)))"
    by (auto simp: status_of_def example_report_no_file_def)
  show ?thesis
    using a b c d
      completed_report_without_file_rejected [OF a b, of 5 5 "database (run dispatched initial_world)"]
    by simp
qed

subsection \<open>Status projection\<close>

text \<open>
  Claim C9. \<open>GetJobStatus\<close> leaves the database as it was, and a view that carries a
  download reference belongs to a job whose status is \<open>completed\<close>; the reference is
  \<open>/download/\<close> followed by the file name of the first Result record of that job.
\<close>

theorem status_projection_is_pure:
  "GetJobStatus jobID db = (res, db') \<Longrightarrow>
     db' = db \<and>
     (\<forall>response url. res = Inr response \<and> js_DownloadURL response = Some url \<longrightarrow>
        status_of jobID db = Some StatusCompleted \<and>
        (\<exists>ringtone. find (\<lambda>r. JobID r = jobID) (ringtones db) = Some ringtone \<and>
                    url = ''/download/'' @ FileName ringtone))"
  by (auto simp: GetJobStatus_def store_GetJob_def store_GetRingtoneByJobID_def status_of_def
           Let_def split: option.splits if_splits)

theorem status_projection_is_pure_witness:
  "(\<exists>response.
      GetJobStatus ''job1''
         (snd (HandleCallback example_report 5 5 (database (run dispatched initial_world)))) =
       (Inr response,
        snd (HandleCallback example_report 5 5 (database (run dispatched initial_world)))) \<and>
      js_DownloadURL response = Some ''/download/job1.mp3'') \<and>
   status_of ''job1''
     (snd (HandleCallback example_report 5 5 (database (run dispatched initial_world)))) =
     Some StatusCompleted"
proof -
  define db where "db = snd (HandleCallback example_report 5 5 (database (run dispatched initial_world)))"
  have "\<exists>response. fst (GetJobStatus ''job1'' db) = Inr response \<and>
     js_DownloadURL response = Some ''/download/job1.mp3''"
    unfolding db_def
    by (simp add: run_defs dispatched_def loop_first_succeeds always_succeeds_def
        example_report_def status_defs)
  then obtain response where r: "fst (GetJobStatus ''job1'' db) = Inr response"
    "js_DownloadURL response = Some ''/download/job1.mp3''" by blast
  obtain db' where g: "GetJobStatus ''job1'' db = (Inr response, db')"
    using r(1) by (cases "GetJobStatus ''job1'' db") auto
  from status_projection_is_pure [OF g] r(2) g show ?thesis
    unfolding db_def by blast
qed

subsection \<open>The format of a Result record\<close>

text \<open>
  Claim C10. A callback adds at most one row to \<open>ringtones\<close>, and the format of a row it
  adds is \<open>mp3\<close>, whatever the options of the job and the file name of the report; a
  \<open>completed\<close> report with a file name for an existing job does add a row.
\<close>

theorem result_format_is_mp3:
  "(ringtones (snd (HandleCallback req now1 now2 db)) = ringtones db \<or>
    (\<exists>row. ringtones (snd (HandleCallback req now1 now2 db)) = ringtones db @ [row] \<and>
           RFormat row = ''mp3'')) \<and>
   (cb_Status req = StatusCompleted \<and> cb_FilePath req \<noteq> None \<and> cb_JobID req \<in> dom (jobs db) \<longrightarrow>
      (\<exists>row. ringtones (snd (HandleCallback req now1 now2 db)) = ringtones db @ [row] \<and>
           RFormat row = ''mp3''))"
  by (auto simp: HandleCallback_def handleCompletedCallback_def handleFailedCallback_def store_defs Let_def
           split: option.splits)

theorem result_format_is_mp3_witness:
  "cb_Status example_report_wav = StatusCompleted \<and> cb_FilePath example_report_wav \<noteq> None \<and>
   cb_JobID example_report_wav \<in> dom (jobs (database (run dispatched_wav initial_world))) \<and>
   map_option (\<lambda>job. map_option (\<lambda>p. Format (p_options p)) (N8NPayload job))
     (jobs (database (run dispatched_wav initial_world)) ''job1'') = Some (Some ''wav'') \<and>
   (\<exists>row. ringtones (snd (HandleCallback example_report_wav 5 5
                 (database (run dispatched_wav initial_world)))) = [row] \<and>
      FileName row = ''job1.wav'' \<and> RFormat row = ''mp3'')"
proof -
  have a: "cb_Status example_report_wav = StatusCompleted \<and> cb_FilePath example_report_wav \<noteq> None"
    by (simp add: example_report_wav_def StatusCompleted_def)
  have b: "cb_JobID example_report_wav \<in> dom (jobs (database (run dispatched_wav initial_world)))"
    by (simp add: run_defs dispatched_wav_def loop_first_succeeds always_succeeds_def
        example_report_wav_def)
  have c: "map_option (\<lambda>job. map_option (\<lambda>p. Format (p_options p)) (N8NPayload job))
     (jobs (database (run dispatched_wav initial_world)) ''job1'') = Some (Some ''wav'')"
    by (simp add: run_defs dispatched_wav_def loop_first_succeeds always_succeeds_def
        example_request_wav_def)
  have d: "ringtones (database (run dispatched_wav initial_world)) = []"
    by (simp add: run_defs dispatched_wav_def loop_first_succeeds always_succeeds_def)
  have e: "FileName (last (ringtones (snd (HandleCallback example_report_wav 5 5
                 (database (run dispatched_wav initial_world)))))) = ''job1.wav''"
    by (simp add: run_defs dispatched_wav_def loop_first_succeeds always_succeeds_def
        example_report_wav_def status_defs)
  from result_format_is_mp3 [of example_report_wav 5 5 "database (run dispatched_wav initial_world)"]
    a b have "\<exists>row. ringtones (snd (HandleCallback example_report_wav 5 5
        (database (run dispatched_wav initial_world)))) =
         ringtones (database (run dispatched_wav initial_world)) @ [row] \<and> RFormat row = ''mp3''"
    by blast
  then show ?thesis using a b c d e by auto
qed

end
